theory Spec2Isabelle
  imports Main "HOL-Library.Word"
begin

section \<open>Go values shared by the managers\<close>

text \<open>
  A Go \<^verbatim>\<open>error\<close> is either an error with a message of its own (\<^verbatim>\<open>errors.New\<close>,
  \<^verbatim>\<open>fmt.Errorf\<close> without \<^verbatim>\<open>%w\<close>, or an error handed back by a collaborator), or
  \<^verbatim>\<open>fmt.Errorf(prefix + "%w", err)\<close>, which keeps \<^verbatim>\<open>err\<close> reachable through
  \<^verbatim>\<open>errors.Unwrap\<close>.
\<close>

datatype error = ErrorString string | WrapError string error

fun Error_text :: "error \<Rightarrow> string" where
  "Error_text (ErrorString s) = s"
| "Error_text (WrapError p e) = p @ Error_text e"


text \<open>\<^verbatim>\<open>http.MethodGet\<close>, \<^verbatim>\<open>http.MethodPost\<close>, \<^verbatim>\<open>http.MethodDelete\<close>.\<close>

definition MethodGet :: string where "MethodGet = ''GET''"
definition MethodPost :: string where "MethodPost = ''POST''"
definition MethodDelete :: string where "MethodDelete = ''DELETE''"

text \<open>\<^verbatim>\<open>strings.Join(elems, sep)\<close>.\<close>

fun Join :: "string list \<Rightarrow> string \<Rightarrow> string" where
  "Join [] sep = []"
| "Join [x] sep = x"
| "Join (x # y # ys) sep = x @ sep @ Join (y # ys) sep"

text \<open>
  \<^verbatim>\<open>strconv.FormatInt(i, 10)\<close> and the \<^verbatim>\<open>%d\<close> verb of \<^verbatim>\<open>fmt\<close>: the decimal digits
  of the value, most significant first, after a minus sign when it is negative.
\<close>

definition digit :: "nat \<Rightarrow> char" where
  "digit n = ''0123456789'' ! (n mod 10)"

function FormatUint :: "nat \<Rightarrow> string" where
  "FormatUint n = (if n < 10 then [digit n] else FormatUint (n div 10) @ [digit (n mod 10)])"
  by pat_completeness auto
termination
  by (relation "measure id") auto

definition FormatInt :: "int \<Rightarrow> string" where
  "FormatInt i = (if i < 0 then CHR ''-'' # FormatUint (nat (- i)) else FormatUint (nat i))"

text \<open>The value a decimal string denotes, used to say that \<open>FormatInt\<close> is the decimal
  representation.\<close>

definition digit_value :: "char \<Rightarrow> nat" where
  "digit_value c = of_char c - 48"

definition decimal_nat :: "string \<Rightarrow> nat" where
  "decimal_nat s = foldl (\<lambda>acc c. 10 * acc + digit_value c) 0 s"

definition decimal_int :: "string \<Rightarrow> int" where
  "decimal_int s = (case s of
       [] \<Rightarrow> 0
     | c # cs \<Rightarrow> if c = CHR ''-'' then - int (decimal_nat cs) else int (decimal_nat s))"

section \<open>The request client, as the managers use it\<close>

text \<open>
  \<^verbatim>\<open>request_client.ApiRequest\<close>: what \<^verbatim>\<open>NewApiRequest(path, method)\<close> and
  \<^verbatim>\<open>SetBody\<close> put into it.
\<close>

record ApiRequest =
  reqPath :: string
  reqMethod :: string
  reqBody :: string

definition NewApiRequest :: "string \<Rightarrow> string \<Rightarrow> ApiRequest" where
  "NewApiRequest path method = \<lparr>reqPath = path, reqMethod = method, reqBody = []\<rparr>"

definition SetBody :: "ApiRequest \<Rightarrow> string \<Rightarrow> ApiRequest" where
  "SetBody r body = r\<lparr>reqBody := body\<rparr>"

text \<open>
  A \<^verbatim>\<open>mime/multipart\<close> writer over a \<^verbatim>\<open>bytes.Buffer\<close>. The buffer is kept as the
  sequence of parts written into it (each with its MIME header lines and its data), the
  boundary of the writer, and whether the closing boundary has been written; the framing
  bytes between the parts are not spelled out.
\<close>

record Part =
  part_header :: "(string \<times> string) list"
  part_data :: string

record Buffer =
  bufBoundary :: string
  bufParts :: "Part list"
  bufClosed :: bool

text \<open>\<^verbatim>\<open>http.Header\<close> and \<^verbatim>\<open>textproto.MIMEHeader\<close>: \<^verbatim>\<open>Set\<close> replaces the value
  stored under a key. Header names are kept as the code writes them.\<close>

fun Header_Set :: "(string \<times> string) list \<Rightarrow> string \<Rightarrow> string \<Rightarrow> (string \<times> string) list" where
  "Header_Set [] k v = [(k, v)]"
| "Header_Set ((k', v') # h) k v =
     (if k' = k then (k, v) # h else (k', v') # Header_Set h k v)"

definition Header_Get :: "(string \<times> string) list \<Rightarrow> string \<Rightarrow> string option" where
  "Header_Get h k = map_of h k"

record HttpRequest =
  httpMethod :: string
  httpURL :: string
  httpHeader :: "(string \<times> string) list"
  httpBody :: string

text \<open>An \<^verbatim>\<open>http.Response\<close> with its body read by \<^verbatim>\<open>io.ReadAll\<close>: the bytes read and
  the error of the read, if any.\<close>

record HttpResponse =
  StatusCode :: int
  respBody :: string
  respReadErr :: "error option"

subsection \<open>Response shapes decoded by \<^verbatim>\<open>json.Unmarshal\<close>\<close>

record MediaMetadata =
  MessagingProduct :: string
  Url :: string
  MimeType :: string
  Sha256 :: string
  FileSize :: int
  ID :: string

record DeleteSuccessResponse =
  Success :: bool

text \<open>The anonymous \<^verbatim>\<open>struct { ID string `json:"id"` }\<close> of \<^verbatim>\<open>UploadMedia\<close>.\<close>

record UploadMediaResult =
  result_ID :: string

record ResumableUploadSession =
  session_ID :: string

record ResumableUploadResult =
  Handle :: string

record FlowValidationError =
  Error :: string
  ErrorType :: string
  Message :: string
  LineStart :: int
  LineEnd :: int
  ColumnStart :: int
  ColumnEnd :: int

record UploadFlowJSONResponse =
  upload_Success :: bool
  upload_ValidationErrors :: "FlowValidationError list"

record CreateFlowResponse =
  create_ID :: string
  create_Success :: bool
  create_ValidationErrors :: "FlowValidationError list"

text \<open>Values handed to \<^verbatim>\<open>json.Marshal\<close>.\<close>

datatype json = JString string | JInt int | JObject "(string \<times> json) list"

record UploadFlowJSONRequest =
  Name :: string
  AssetType :: string
  File :: string

text \<open>The struct as \<^verbatim>\<open>json.Marshal\<close> sees it through its field tags.\<close>

definition UploadFlowJSONRequest_json :: "UploadFlowJSONRequest \<Rightarrow> json" where
  "UploadFlowJSONRequest_json r =
     JObject [(''name'', JString (Name r)), (''asset_type'', JString (AssetType r)),
              (''file'', JString (File r))]"

subsection \<open>The collaborators\<close>

text \<open>
  The request client, the HTTP client and the JSON codec are not part of the managers:
  they are parameters. \<open>'st\<close> is the state of the remote service, which every call
  that reaches it may read and change. A Go result \<^verbatim>\<open>(string, error)\<close> is a pair of the
  string and the error, \<open>None\<close> for \<^verbatim>\<open>nil\<close>.

  \<open>REQUEST_PROTOCOL\<close>, \<open>BASE_URL\<close> and \<open>API_VERSION\<close> are the constants of
  \<^verbatim>\<open>request_client\<close>; \<open>url_Parse\<close> is the error, if any, with which
  \<^verbatim>\<open>http.NewRequest\<close> rejects a URL; \<open>RandomBoundary\<close> is the boundary
  \<^verbatim>\<open>multipart.NewWriter\<close> draws.
\<close>

record 'st env =
  REQUEST_PROTOCOL :: string
  BASE_URL :: string
  API_VERSION :: string
  ApiAccessToken :: string
  Execute :: "ApiRequest \<Rightarrow> 'st \<Rightarrow> (string \<times> error option) \<times> 'st"
  RequestMultipart :: "string \<Rightarrow> string \<Rightarrow> Buffer \<Rightarrow> string \<Rightarrow> 'st \<Rightarrow> (string \<times> error option) \<times> 'st"
  url_Parse :: "string \<Rightarrow> error option"
  Do :: "HttpRequest \<Rightarrow> 'st \<Rightarrow> (error + HttpResponse) \<times> 'st"
  RandomBoundary :: string
  Marshal :: "json \<Rightarrow> string \<times> error option"
  Unmarshal_MediaMetadata :: "string \<Rightarrow> error + MediaMetadata"
  Unmarshal_DeleteSuccessResponse :: "string \<Rightarrow> error + DeleteSuccessResponse"
  Unmarshal_UploadMediaResult :: "string \<Rightarrow> error + UploadMediaResult"
  Unmarshal_ResumableUploadSession :: "string \<Rightarrow> error + ResumableUploadSession"
  Unmarshal_ResumableUploadResult :: "string \<Rightarrow> error + ResumableUploadResult"
  Unmarshal_UploadFlowJSONResponse :: "string \<Rightarrow> error + UploadFlowJSONResponse"
  Unmarshal_CreateFlowResponse :: "string \<Rightarrow> error + CreateFlowResponse"

section \<open>MediaManager\<close>

definition GetMediaUrlById :: "'st env \<Rightarrow> string \<Rightarrow> 'st \<Rightarrow> (string \<times> error option) \<times> 'st" where
  "GetMediaUrlById env mediaId st =
     (let apiRequest = NewApiRequest mediaId MethodGet in
      case Execute env apiRequest st of
        ((rawResponse, Some err), st') \<Rightarrow> (([], Some err), st')
      | ((rawResponse, None), st') \<Rightarrow>
          (case Unmarshal_MediaMetadata env rawResponse of
             Inl err \<Rightarrow> (([], Some (WrapError ''failed to parse media metadata: '' err)), st')
           | Inr res \<Rightarrow>
               if Url res = []
               then (([], Some (ErrorString (''no media url found in response: '' @ rawResponse))), st')
               else ((Url res, None), st')))"

definition DeleteMedia :: "'st env \<Rightarrow> string \<Rightarrow> 'st \<Rightarrow> (string \<times> error option) \<times> 'st" where
  "DeleteMedia env mediaId st =
     (let apiRequest = NewApiRequest (Join [''media'', mediaId] ''/'') MethodDelete in
      case Execute env apiRequest st of
        ((rawResponse, Some err), st') \<Rightarrow> (([], Some err), st')
      | ((rawResponse, None), st') \<Rightarrow>
          (case Unmarshal_DeleteSuccessResponse env rawResponse of
             Inl err \<Rightarrow> (([], Some (WrapError ''failed to parse delete response: '' err)), st')
           | Inr res \<Rightarrow>
               if \<not> Success res
               then (([], Some (ErrorString
                        (''media deletion failed or returned success=false: '' @ rawResponse))), st')
               else ((''media deleted successfully'', None), st')))"


subsection \<open>The standard-library calls of the upload paths\<close>

text \<open>
  \<^verbatim>\<open>multipart.NewWriter\<close>, \<^verbatim>\<open>CreatePart\<close>, \<^verbatim>\<open>CreateFormField\<close>, \<^verbatim>\<open>WriteField\<close>,
  \<^verbatim>\<open>CreateFormFile\<close>, \<^verbatim>\<open>Close\<close> and \<^verbatim>\<open>FormDataContentType\<close>. Each returns the
  buffer it has written to and its error; a write into a \<^verbatim>\<open>bytes.Buffer\<close> returns no
  error, so the error is always \<^verbatim>\<open>nil\<close> here.
\<close>

definition NewWriter :: "string \<Rightarrow> Buffer" where
  "NewWriter b = \<lparr>bufBoundary = b, bufParts = [], bufClosed = False\<rparr>"

definition escapeQuotes :: "string \<Rightarrow> string" where
  "escapeQuotes s =
     concat (map (\<lambda>c. if c = CHR 0x5C then [CHR 0x5C, CHR 0x5C]
                        else if c = CHR 0x22 then [CHR 0x5C, CHR 0x22] else [c]) s)"

definition CreatePart :: "Buffer \<Rightarrow> (string \<times> string) list \<Rightarrow> Buffer \<times> error option" where
  "CreatePart w h = (w\<lparr>bufParts := bufParts w @ [\<lparr>part_header = h, part_data = []\<rparr>]\<rparr>, None)"

text \<open>A write to the part created last appends to its data.\<close>

definition Part_Write :: "Buffer \<Rightarrow> string \<Rightarrow> Buffer \<times> error option" where
  "Part_Write w d =
     (case rev (bufParts w) of
        [] \<Rightarrow> (w, None)
      | p # ps \<Rightarrow> (w\<lparr>bufParts := rev ps @ [p\<lparr>part_data := part_data p @ d\<rparr>]\<rparr>, None))"

definition CreateFormField :: "Buffer \<Rightarrow> string \<Rightarrow> Buffer \<times> error option" where
  "CreateFormField w fieldname =
     CreatePart w (Header_Set [] ''Content-Disposition''
        (''form-data; name=\"'' @ escapeQuotes fieldname @ ''\"''))"

definition WriteField :: "Buffer \<Rightarrow> string \<Rightarrow> string \<Rightarrow> Buffer \<times> error option" where
  "WriteField w fieldname v =
     (case CreateFormField w fieldname of
        (w', Some err) \<Rightarrow> (w', Some err)
      | (w', None) \<Rightarrow> Part_Write w' v)"

definition CreateFormFile :: "Buffer \<Rightarrow> string \<Rightarrow> string \<Rightarrow> Buffer \<times> error option" where
  "CreateFormFile w fieldname filename =
     CreatePart w
       (Header_Set
          (Header_Set [] ''Content-Disposition''
             (''form-data; name=\"'' @ escapeQuotes fieldname @ ''\"; filename=\"''
                @ escapeQuotes filename @ ''\"''))
          ''Content-Type'' ''application/octet-stream'')"

definition Close_writer :: "Buffer \<Rightarrow> Buffer \<times> error option" where
  "Close_writer w = (w\<lparr>bufClosed := True\<rparr>, None)"

definition FormDataContentType :: "Buffer \<Rightarrow> string" where
  "FormDataContentType w = ''multipart/form-data; boundary='' @ bufBoundary w"

text \<open>An \<^verbatim>\<open>io.Reader\<close>: the bytes it yields, and the error that ends the reading if it
  does not end with \<^verbatim>\<open>io.EOF\<close>. \<^verbatim>\<open>io.Copy\<close> writes what it has read and returns that
  error.\<close>

datatype Reader = Reader string "error option"

fun io_Copy :: "Buffer \<Rightarrow> Reader \<Rightarrow> Buffer \<times> error option" where
  "io_Copy w (Reader d e) =
     (case Part_Write w d of
        (w', Some err) \<Rightarrow> (w', Some err)
      | (w', None) \<Rightarrow> (w', e))"

text \<open>\<^verbatim>\<open>filepath.Base\<close> with the separator \<^verbatim>\<open>/\<close>: the last element of the path, after
  trailing separators are removed; \<^verbatim>\<open>.\<close> for the empty path and \<^verbatim>\<open>/\<close> for a path of
  separators only.\<close>

definition IsPathSeparator :: "char \<Rightarrow> bool" where
  "IsPathSeparator c = (c = CHR ''/'')"

definition Base :: "string \<Rightarrow> string" where
  "Base path =
     (if path = [] then ''.''
      else let p = rev (dropWhile IsPathSeparator (rev path));
               e = rev (takeWhile (\<lambda>c. \<not> IsPathSeparator c) (rev p))
           in if e = [] then ''/'' else e)"

text \<open>\<^verbatim>\<open>http.NewRequest(method, url, body)\<close>: a request with no header yet, unless the URL
  is rejected.\<close>

definition http_NewRequest :: "'st env \<Rightarrow> string \<Rightarrow> string \<Rightarrow> string \<Rightarrow> error + HttpRequest" where
  "http_NewRequest env method url body =
     (case url_Parse env url of
        Some err \<Rightarrow> Inl err
      | None \<Rightarrow> Inr \<lparr>httpMethod = method, httpURL = url, httpHeader = [], httpBody = body\<rparr>)"

subsection \<open>Uploads\<close>

definition UploadMedia ::
    "'st env \<Rightarrow> string \<Rightarrow> Reader \<Rightarrow> string \<Rightarrow> string \<Rightarrow> 'st \<Rightarrow> (string \<times> error option) \<times> 'st" where
  "UploadMedia env phoneNumberId file filename mimeType st =
     (let writer = NewWriter (RandomBoundary env) in
      case WriteField writer ''messaging_product'' ''whatsapp'' of
        (writer, Some err) \<Rightarrow> (([], Some (WrapError ''failed to write field: '' err)), st)
      | (writer, None) \<Rightarrow>
     (let partHeader = Header_Set [] ''Content-Disposition''
            (''form-data; name=\"file\"; filename=\"'' @ Base filename @ ''\"'');
          partHeader = Header_Set partHeader ''Content-Type'' mimeType in
      case CreatePart writer partHeader of
        (writer, Some err) \<Rightarrow> (([], Some (WrapError ''failed to create multipart part: '' err)), st)
      | (writer, None) \<Rightarrow>
     (case io_Copy writer file of
        (writer, Some err) \<Rightarrow> (([], Some (WrapError ''failed to copy file into part: '' err)), st)
      | (writer, None) \<Rightarrow>
     (case Close_writer writer of
        (writer, Some err) \<Rightarrow> (([], Some (WrapError ''failed to close writer: '' err)), st)
      | (writer, None) \<Rightarrow>
     (let apiPath = Join [phoneNumberId, ''media''] ''/'';
          contentType = FormDataContentType writer in
      case RequestMultipart env MethodPost apiPath writer contentType st of
        ((responseBody, Some err), st') \<Rightarrow>
          (([], Some (WrapError ''error uploading media: '' err)), st')
      | ((responseBody, None), st') \<Rightarrow>
     (case Unmarshal_UploadMediaResult env responseBody of
        Inl err \<Rightarrow> (([], Some (WrapError ''failed to parse JSON response: '' err)), st')
      | Inr result \<Rightarrow>
          if result_ID result = []
          then (([], Some (ErrorString (''no media id in response: '' @ responseBody))), st')
          else ((result_ID result, None), st')))))))"

text \<open>The request body is a Go map; \<^verbatim>\<open>json.Marshal\<close> writes the keys of a map in sorted
  order.\<close>

definition CreateResumableUploadSession ::
    "'st env \<Rightarrow> string \<Rightarrow> 64 word \<Rightarrow> string \<Rightarrow> 'st \<Rightarrow> (string \<times> error option) \<times> 'st" where
  "CreateResumableUploadSession env appID fileLength fileType st =
     (let path = appID @ ''/uploads'';
          body = JObject [(''file_length'', JInt (sint fileLength)),
                          (''file_type'', JString fileType)] in
      case Marshal env body of
        (bodyJSON, Some err) \<Rightarrow>
          (([], Some (WrapError ''failed to marshal request body: '' err)), st)
      | (bodyJSON, None) \<Rightarrow>
     (let apiRequest = NewApiRequest path MethodPost;
          apiRequest = SetBody apiRequest bodyJSON in
      case Execute env apiRequest st of
        ((rawResponse, Some err), st') \<Rightarrow>
          (([], Some (WrapError ''failed to create upload session: '' err)), st')
      | ((rawResponse, None), st') \<Rightarrow>
     (case Unmarshal_ResumableUploadSession env rawResponse of
        Inl err \<Rightarrow>
          (([], Some (WrapError ''failed to parse upload session response: '' err)), st')
      | Inr result \<Rightarrow>
          if session_ID result = []
          then (([], Some (ErrorString (''no upload session ID in response: '' @ rawResponse))), st')
          else ((session_ID result, None), st'))))"

definition UploadResumableMedia ::
    "'st env \<Rightarrow> string \<Rightarrow> string \<Rightarrow> 64 word \<Rightarrow> 'st \<Rightarrow> (string \<times> error option) \<times> 'st" where
  "UploadResumableMedia env sessionID fileData fileOffset st =
     (let requestPath = REQUEST_PROTOCOL env @ ''://'' @ BASE_URL env @ ''/'' @ API_VERSION env
            @ ''/'' @ sessionID in
      case http_NewRequest env MethodPost requestPath fileData of
        Inl err \<Rightarrow> (([], Some (WrapError ''failed to create request: '' err)), st)
      | Inr httpRequest \<Rightarrow>
     (let httpRequest = httpRequest\<lparr>httpHeader :=
            Header_Set (httpHeader httpRequest) ''Authorization'' (''OAuth '' @ ApiAccessToken env)\<rparr>;
          httpRequest = httpRequest\<lparr>httpHeader :=
            Header_Set (httpHeader httpRequest) ''file_offset'' (FormatInt (sint fileOffset))\<rparr> in
      case Do env httpRequest st of
        (Inl err, st') \<Rightarrow> (([], Some (WrapError ''failed to execute upload request: '' err)), st')
      | (Inr response, st') \<Rightarrow>
     (case respReadErr response of
        Some err \<Rightarrow> (([], Some (WrapError ''failed to read response body: '' err)), st')
      | None \<Rightarrow>
     (let respBody = respBody response in
      if StatusCode response < 200 \<or> StatusCode response \<ge> 300
      then (([], Some (ErrorString (''upload failed with status '' @ FormatInt (StatusCode response)
                @ '': '' @ respBody))), st')
      else
     (case Unmarshal_ResumableUploadResult env respBody of
        Inl err \<Rightarrow> (([], Some (WrapError ''failed to parse upload response: '' err)), st')
      | Inr result \<Rightarrow>
          if Handle result = []
          then (([], Some (ErrorString (''no media handle in response: '' @ respBody))), st')
          else ((Handle result, None), st'))))))"

definition UploadMediaForTemplate ::
    "'st env \<Rightarrow> string \<Rightarrow> string \<Rightarrow> string \<Rightarrow> 'st \<Rightarrow> (string \<times> error option) \<times> 'st" where
  "UploadMediaForTemplate env appID fileData fileType st =
     (case CreateResumableUploadSession env appID (of_nat (length fileData)) fileType st of
        ((sessionID, Some err), st') \<Rightarrow>
          (([], Some (WrapError ''failed to create upload session: '' err)), st')
      | ((sessionID, None), st') \<Rightarrow>
     (case UploadResumableMedia env sessionID fileData 0 st' of
        ((handle, Some err), st'') \<Rightarrow>
          (([], Some (WrapError ''failed to upload media: '' err)), st'')
      | ((handle, None), st'') \<Rightarrow> ((handle, None), st'')))"


section \<open>FlowManager\<close>

text \<open>\<^verbatim>\<open>UploadFlowJSON\<close> as the file with the multipart form defines it.\<close>

definition UploadFlowJSON ::
    "'st env \<Rightarrow> string \<Rightarrow> string \<Rightarrow> 'st
       \<Rightarrow> (UploadFlowJSONResponse option \<times> error option) \<times> 'st" where
  "UploadFlowJSON env flowID flowJSON st =
     (let writer = NewWriter (RandomBoundary env) in
      case WriteField writer ''name'' ''flow.json'' of
        (writer, Some err) \<Rightarrow>
          ((None, Some (WrapError ''failed to write 'name' field: '' err)), st)
      | (writer, None) \<Rightarrow>
     (case WriteField writer ''asset_type'' ''FLOW_JSON'' of
        (writer, Some err) \<Rightarrow>
          ((None, Some (WrapError ''failed to write 'asset_type' field: '' err)), st)
      | (writer, None) \<Rightarrow>
     (case CreateFormFile writer ''file'' ''flow.json'' of
        (writer, Some err) \<Rightarrow> ((None, Some (WrapError ''failed to create form file: '' err)), st)
      | (writer, None) \<Rightarrow>
     (case Part_Write writer flowJSON of
        (writer, Some err) \<Rightarrow>
          ((None, Some (WrapError ''failed to write flow JSON content: '' err)), st)
      | (writer, None) \<Rightarrow>
     (case Close_writer writer of
        (writer, Some err) \<Rightarrow>
          ((None, Some (WrapError ''failed to close multipart writer: '' err)), st)
      | (writer, None) \<Rightarrow>
     (let path = Join [flowID, ''assets''] ''/'' in
      case RequestMultipart env MethodPost path writer (FormDataContentType writer) st of
        ((response, Some err), st') \<Rightarrow>
          ((None, Some (WrapError ''failed to upload flow JSON: '' err)), st')
      | ((response, None), st') \<Rightarrow>
     (case Unmarshal_UploadFlowJSONResponse env response of
        Inl err \<Rightarrow> ((None, Some (WrapError ''failed to unmarshal response: '' err)), st')
      | Inr result \<Rightarrow> ((Some result, None), st'))))))))"

text \<open>\<^verbatim>\<open>UploadFlowJSON\<close> as \<^verbatim>\<open>manager/flow_manager.go\<close> defines it.\<close>

definition UploadFlowJSON_flow_manager ::
    "'st env \<Rightarrow> string \<Rightarrow> string \<Rightarrow> 'st
       \<Rightarrow> (CreateFlowResponse option \<times> error option) \<times> 'st" where
  "UploadFlowJSON_flow_manager env flowID flowJSON st =
     (let apiRequest = NewApiRequest (Join [flowID, ''assets''] ''/'') MethodPost;
          body = \<lparr>Name = ''flow.json'', AssetType = ''FLOW_JSON'', File = flowJSON\<rparr> in
      case Marshal env (UploadFlowJSONRequest_json body) of
        (jsonBody, Some err) \<Rightarrow> ((None, Some (WrapError ''failed to marshal request: '' err)), st)
      | (jsonBody, None) \<Rightarrow>
     (let apiRequest = SetBody apiRequest jsonBody in
      case Execute env apiRequest st of
        ((response, Some err), st') \<Rightarrow> ((None, Some err), st')
      | ((response, None), st') \<Rightarrow>
     (case Unmarshal_CreateFlowResponse env response of
        Inl err \<Rightarrow> ((None, Some (WrapError ''failed to unmarshal response: '' err)), st')
      | Inr result \<Rightarrow> ((Some result, None), st'))))"

definition GetFlowJSON :: "'st env \<Rightarrow> string \<Rightarrow> 'st \<Rightarrow> (string \<times> error option) \<times> 'st" where
  "GetFlowJSON env flowID st =
     (let apiRequest = NewApiRequest (Join [flowID, ''assets''] ''/'') MethodGet in
      case Execute env apiRequest st of
        ((response, Some err), st') \<Rightarrow> (([], Some err), st')
      | ((response, None), st') \<Rightarrow> ((response, None), st'))"

section \<open>Observing the requests an operation issues\<close>

text \<open>
  Every call that leaves the process goes through \<open>Execute\<close>, \<open>RequestMultipart\<close> or
  \<open>Do\<close>. \<open>recording env\<close> behaves as \<open>env\<close> and appends each such call, with its
  arguments, to a log kept beside the remote state.
\<close>

datatype wire_call =
    ApiCall ApiRequest
  | MultipartCall string string Buffer string
  | HttpCall HttpRequest

definition recording :: "'st env \<Rightarrow> ('st \<times> wire_call list) env" where
  "recording env =
     \<lparr>REQUEST_PROTOCOL = REQUEST_PROTOCOL env,
      BASE_URL = BASE_URL env,
      API_VERSION = API_VERSION env,
      ApiAccessToken = ApiAccessToken env,
      Execute = (\<lambda>req (st, log). case Execute env req st of
                   (r, st') \<Rightarrow> (r, (st', log @ [ApiCall req]))),
      RequestMultipart = (\<lambda>method path body ct (st, log).
                   case RequestMultipart env method path body ct st of
                     (r, st') \<Rightarrow> (r, (st', log @ [MultipartCall method path body ct]))),
      url_Parse = url_Parse env,
      Do = (\<lambda>req (st, log). case Do env req st of
                   (r, st') \<Rightarrow> (r, (st', log @ [HttpCall req]))),
      RandomBoundary = RandomBoundary env,
      Marshal = Marshal env,
      Unmarshal_MediaMetadata = Unmarshal_MediaMetadata env,
      Unmarshal_DeleteSuccessResponse = Unmarshal_DeleteSuccessResponse env,
      Unmarshal_UploadMediaResult = Unmarshal_UploadMediaResult env,
      Unmarshal_ResumableUploadSession = Unmarshal_ResumableUploadSession env,
      Unmarshal_ResumableUploadResult = Unmarshal_ResumableUploadResult env,
      Unmarshal_UploadFlowJSONResponse = Unmarshal_UploadFlowJSONResponse env,
      Unmarshal_CreateFlowResponse = Unmarshal_CreateFlowResponse env\<rparr>"

definition calls :: "('r \<times> 'st \<times> wire_call list) \<Rightarrow> wire_call list" where
  "calls out = snd (snd out)"


section \<open>The manual two-step upload and the echoing remote\<close>


text \<open>The content of the part of a form that is named \<^verbatim>\<open>file\<close>.\<close>

definition is_file_part :: "Part \<Rightarrow> bool" where
  "is_file_part p =
     (case Header_Get (part_header p) ''Content-Disposition'' of
        None \<Rightarrow> False
      | Some v \<Rightarrow> take 22 v = ''form-data; name=\"file\"'')"

definition file_content :: "Buffer \<Rightarrow> string" where
  "file_content b = (case filter is_file_part (bufParts b) of [] \<Rightarrow> [] | p # ps \<Rightarrow> part_data p)"

text \<open>
  A remote is a faithful echo when, after a multipart POST to a path that the transport
  reports as done, a GET of the same path returns the content of the posted file part.
\<close>

definition faithful_echo :: "'st env \<Rightarrow> bool" where
  "faithful_echo env =
     (\<forall>path body ct st resp st'.
        RequestMultipart env MethodPost path body ct st = ((resp, None), st') \<longrightarrow>
        fst (Execute env (NewApiRequest path MethodGet) st') = (file_content body, None))"

subsection \<open>A mock transport\<close>

text \<open>
  The remote state of the mock is the list of stored documents, by path. A GET returns the
  document stored under the path; a multipart POST stores the file part under the path; the
  session-creation POST answers with session id \<^verbatim>\<open>sess_123\<close>, the data push with handle
  \<^verbatim>\<open>4::abc\<close>. Its JSON encoder writes flat objects without escaping; its decoders know
  the answers of the mock.
\<close>

definition quote :: "string \<Rightarrow> string" where
  "quote s = CHR 0x22 # s @ [CHR 0x22]"

fun mock_json_atom :: "json \<Rightarrow> string" where
  "mock_json_atom (JString s) = quote s"
| "mock_json_atom (JInt i) = FormatInt i"
| "mock_json_atom (JObject kvs) = ''{}''"

fun mock_Marshal :: "json \<Rightarrow> string \<times> error option" where
  "mock_Marshal (JObject kvs) =
     (''{'' @ Join (map (\<lambda>(k, v). quote k @ '':'' @ mock_json_atom v) kvs) '','' @ ''}'', None)"
| "mock_Marshal j = (mock_json_atom j, None)"

definition syntax_error :: error where
  "syntax_error = ErrorString ''invalid character''"

definition mock_env :: "((string \<times> string) list) env" where
  "mock_env =
     \<lparr>REQUEST_PROTOCOL = ''https'',
      BASE_URL = ''graph.facebook.com'',
      API_VERSION = ''v20.0'',
      ApiAccessToken = ''TOKEN'',
      Execute = (\<lambda>req st.
         if reqMethod req = ''GET''
         then (case map_of st (reqPath req) of
                 Some d \<Rightarrow> ((d, None), st)
               | None \<Rightarrow> (([], Some (ErrorString ''not found'')), st))
         else if reqMethod req = ''DELETE''
         then (case map_of st (drop 6 (reqPath req)) of
                 Some d \<Rightarrow> ((''{\"success\":true}'', None), filter (\<lambda>(k, v). k \<noteq> drop 6 (reqPath req)) st)
               | None \<Rightarrow> ((''{\"success\":false}'', None), st))
         else ((''{\"id\":\"sess_123\"}'', None), st)),
      RequestMultipart = (\<lambda>method path body ct st.
         ((''{\"success\":true,\"id\":\"M1\"}'', None), (path, file_content body) # st)),
      url_Parse = (\<lambda>u. None),
      Do = (\<lambda>req st.
         (Inr \<lparr>StatusCode = 200, respBody = ''{\"h\":\"4::abc\"}'', respReadErr = None\<rparr>, st)),
      RandomBoundary = ''b0undary'',
      Marshal = mock_Marshal,
      Unmarshal_MediaMetadata = (\<lambda>s.
         if s = ''{\"url\":\"https://cdn/x\",\"id\":\"M1\"}''
         then Inr \<lparr>MessagingProduct = [], Url = ''https://cdn/x'', MimeType = [], Sha256 = [],
                   FileSize = 0, ID = ''M1''\<rparr>
         else if s = ''{\"id\":\"M2\"}''
         then Inr \<lparr>MessagingProduct = [], Url = [], MimeType = [], Sha256 = [],
                   FileSize = 0, ID = ''M2''\<rparr>
         else Inl syntax_error),
      Unmarshal_DeleteSuccessResponse = (\<lambda>s.
         if s = ''{\"success\":true}'' then Inr \<lparr>Success = True\<rparr>
         else if s = ''{\"success\":false}'' then Inr \<lparr>Success = False\<rparr>
         else Inl syntax_error),
      Unmarshal_UploadMediaResult = (\<lambda>s.
         if s = ''{\"success\":true,\"id\":\"M1\"}'' then Inr \<lparr>result_ID = ''M1''\<rparr>
         else Inl syntax_error),
      Unmarshal_ResumableUploadSession = (\<lambda>s.
         if s = ''{\"id\":\"sess_123\"}'' then Inr \<lparr>session_ID = ''sess_123''\<rparr>
         else Inl syntax_error),
      Unmarshal_ResumableUploadResult = (\<lambda>s.
         if s = ''{\"h\":\"4::abc\"}'' then Inr \<lparr>Handle = ''4::abc''\<rparr>
         else if s = ''{}'' then Inr \<lparr>Handle = []\<rparr>
         else Inl syntax_error),
      Unmarshal_UploadFlowJSONResponse = (\<lambda>s.
         if s = ''{\"success\":true,\"id\":\"M1\"}''
         then Inr \<lparr>upload_Success = True, upload_ValidationErrors = []\<rparr>
         else Inl syntax_error),
      Unmarshal_CreateFlowResponse = (\<lambda>s.
         if s = ''{\"id\":\"sess_123\"}''
         then Inr \<lparr>create_ID = ''sess_123'', create_Success = False, create_ValidationErrors = []\<rparr>
         else Inl syntax_error)\<rparr>"


text \<open>The mock with a transport that fails: the request client hands back an error
  together with a partial string, and the data push is answered with status 500.\<close>

definition failing_env :: "((string \<times> string) list) env" where
  "failing_env = mock_env\<lparr>
      Execute := (\<lambda>req st. ((''partial'', Some (ErrorString ''timeout'')), st)),
      RequestMultipart := (\<lambda>method path body ct st. ((''partial'', Some (ErrorString ''timeout'')), st)),
      Do := (\<lambda>req st. (Inr \<lparr>StatusCode = 500, respBody = ''boom'', respReadErr = None\<rparr>, st))\<rparr>"

text \<open>Two stored media objects: one with a fetch URL, one without.\<close>

definition media_store :: "(string \<times> string) list" where
  "media_store = [(''M1'', ''{\"url\":\"https://cdn/x\",\"id\":\"M1\"}''), (''M2'', ''{\"id\":\"M2\"}'')]"

section \<open>Evaluating the collaborators\<close>

lemma failing_env_simps:
  "Execute failing_env req st = ((''partial'', Some (ErrorString ''timeout'')), st)"
  "RequestMultipart failing_env m p b ct st = ((''partial'', Some (ErrorString ''timeout'')), st)"
  "Do failing_env hreq st = (Inr \<lparr>StatusCode = 500, respBody = ''boom'', respReadErr = None\<rparr>, st)"
  "url_Parse failing_env u = None"
  "Marshal failing_env = mock_Marshal"
  "RandomBoundary failing_env = ''b0undary''"
  by (simp_all add: failing_env_def mock_env_def)

lemma mock_env_simps:
  "REQUEST_PROTOCOL mock_env = ''https''"
  "BASE_URL mock_env = ''graph.facebook.com''"
  "API_VERSION mock_env = ''v20.0''"
  "ApiAccessToken mock_env = ''TOKEN''"
  "url_Parse mock_env u = None"
  "Do mock_env hreq st =
     (Inr \<lparr>StatusCode = 200, respBody = ''{\"h\":\"4::abc\"}'', respReadErr = None\<rparr>, st)"
  "RandomBoundary mock_env = ''b0undary''"
  "Marshal mock_env = mock_Marshal"
  "RequestMultipart mock_env m p b ct st =
     ((''{\"success\":true,\"id\":\"M1\"}'', None), (p, file_content b) # st)"
  by (simp_all add: mock_env_def)

lemma faithful_echo_mock_env: "faithful_echo mock_env"
  by (simp add: faithful_echo_def mock_env_def NewApiRequest_def MethodGet_def)

lemma recording_simps:
  "REQUEST_PROTOCOL (recording env) = REQUEST_PROTOCOL env"
  "BASE_URL (recording env) = BASE_URL env"
  "API_VERSION (recording env) = API_VERSION env"
  "ApiAccessToken (recording env) = ApiAccessToken env"
  "Execute (recording env) req (st, log) =
     (fst (Execute env req st), (snd (Execute env req st), log @ [ApiCall req]))"
  "RequestMultipart (recording env) m p b ct (st, log) =
     (fst (RequestMultipart env m p b ct st),
      (snd (RequestMultipart env m p b ct st), log @ [MultipartCall m p b ct]))"
  "url_Parse (recording env) = url_Parse env"
  "Do (recording env) hreq (st, log) =
     (fst (Do env hreq st), (snd (Do env hreq st), log @ [HttpCall hreq]))"
  "RandomBoundary (recording env) = RandomBoundary env"
  "Marshal (recording env) = Marshal env"
  "Unmarshal_UploadMediaResult (recording env) = Unmarshal_UploadMediaResult env"
  "Unmarshal_ResumableUploadSession (recording env) = Unmarshal_ResumableUploadSession env"
  "Unmarshal_ResumableUploadResult (recording env) = Unmarshal_ResumableUploadResult env"
  "Unmarshal_UploadFlowJSONResponse (recording env) = Unmarshal_UploadFlowJSONResponse env"
  "Unmarshal_CreateFlowResponse (recording env) = Unmarshal_CreateFlowResponse env"
  by (simp_all add: recording_def split: prod.splits)

lemmas multipart_defs = NewWriter_def WriteField_def CreateFormField_def CreateFormFile_def
  CreatePart_def Part_Write_def Close_writer_def FormDataContentType_def escapeQuotes_def

section \<open>\<open>FormatInt\<close> writes the decimal representation\<close>

declare FormatUint.simps [simp del]

lemma digit_cases:
  "(k::nat) < 10 \<Longrightarrow> k = 0 \<or> k = 1 \<or> k = 2 \<or> k = 3 \<or> k = 4 \<or> k = 5 \<or> k = 6 \<or> k = 7
     \<or> k = 8 \<or> k = 9"
  by arith

lemma digit_value_digit: "k < 10 \<Longrightarrow> digit_value (digit k) = k"
  using digit_cases [of k] by (auto simp: digit_def digit_value_def)

lemma digit_not_minus: "digit k \<noteq> CHR ''-''"
  using digit_cases [of "k mod 10"] by (auto simp: digit_def)

lemma decimal_nat_snoc: "decimal_nat (s @ [c]) = 10 * decimal_nat s + digit_value c"
  by (simp add: decimal_nat_def)

lemma decimal_nat_FormatUint: "decimal_nat (FormatUint n) = n"
proof (induction n rule: FormatUint.induct)
  case (1 n)
  show ?case
  proof (cases "n < 10")
    case True
    then show ?thesis
      using decimal_nat_snoc [of "[]" "digit n"]
      by (simp add: FormatUint.simps [of n] digit_value_digit decimal_nat_def)
  next
    case False
    with 1 have "decimal_nat (FormatUint (n div 10)) = n div 10" by simp
    with False show ?thesis
      by (simp add: FormatUint.simps [of n] decimal_nat_snoc digit_value_digit)
  qed
qed

lemma FormatUint_hd: "\<exists>c cs. FormatUint n = c # cs \<and> c \<noteq> CHR ''-''"
proof (induction n rule: FormatUint.induct)
  case (1 n)
  show ?case
  proof (cases "n < 10")
    case True
    then show ?thesis by (simp add: FormatUint.simps [of n] digit_not_minus)
  next
    case False
    with 1 obtain c cs where "FormatUint (n div 10) = c # cs" "c \<noteq> CHR ''-''" by auto
    with False show ?thesis by (simp add: FormatUint.simps [of n])
  qed
qed

lemma decimal_int_FormatInt: "decimal_int (FormatInt i) = i"
proof (cases "i < 0")
  case True
  then show ?thesis by (simp add: FormatInt_def decimal_int_def decimal_nat_FormatUint)
next
  case False
  obtain c cs where f: "FormatUint (nat i) = c # cs" "c \<noteq> CHR ''-''"
    using FormatUint_hd by blast
  have "decimal_nat (c # cs) = nat i"
    using decimal_nat_FormatUint [of "nat i"] f by simp
  with False f show ?thesis by (simp add: FormatInt_def decimal_int_def)
qed

section \<open>No result beside an error\<close>

lemma GetMediaUrlById_error_empty:
  "snd (fst (GetMediaUrlById env mediaId st)) \<noteq> None \<Longrightarrow> fst (fst (GetMediaUrlById env mediaId st)) = []"
  by (auto simp: GetMediaUrlById_def Let_def split: prod.splits option.splits sum.splits if_splits)

lemma DeleteMedia_error_empty:
  "snd (fst (DeleteMedia env mediaId st)) \<noteq> None \<Longrightarrow> fst (fst (DeleteMedia env mediaId st)) = []"
  by (auto simp: DeleteMedia_def Let_def split: prod.splits option.splits sum.splits if_splits)

lemma UploadMedia_error_empty:
  "snd (fst (UploadMedia env pn file filename mimeType st)) \<noteq> None
   \<Longrightarrow> fst (fst (UploadMedia env pn file filename mimeType st)) = []"
  by (auto simp: UploadMedia_def Let_def split: prod.splits option.splits sum.splits if_splits)

lemma CreateResumableUploadSession_error_empty:
  "snd (fst (CreateResumableUploadSession env appID n ty st)) \<noteq> None
   \<Longrightarrow> fst (fst (CreateResumableUploadSession env appID n ty st)) = []"
  by (auto simp: CreateResumableUploadSession_def Let_def split: prod.splits option.splits sum.splits if_splits)

lemma UploadResumableMedia_error_empty:
  "snd (fst (UploadResumableMedia env sid d off st)) \<noteq> None
   \<Longrightarrow> fst (fst (UploadResumableMedia env sid d off st)) = []"
  by (auto simp: UploadResumableMedia_def Let_def split: prod.splits option.splits sum.splits if_splits)

lemma UploadMediaForTemplate_error_empty:
  "snd (fst (UploadMediaForTemplate env appID d ty st)) \<noteq> None
   \<Longrightarrow> fst (fst (UploadMediaForTemplate env appID d ty st)) = []"
  by (auto simp: UploadMediaForTemplate_def Let_def split: prod.splits option.splits sum.splits if_splits)

text \<open>
  Claim C10. In each string-returning operation of MediaManager (\<open>GetMediaUrlById\<close>,
  \<open>DeleteMedia\<close>, \<open>UploadMedia\<close>, \<open>UploadResumableMedia\<close>,
  \<open>CreateResumableUploadSession\<close>, \<open>UploadMediaForTemplate\<close>), whenever the returned
  error is not \<^verbatim>\<open>nil\<close> the returned string is empty.
\<close>

theorem error_implies_empty_string:
  "(snd (fst (GetMediaUrlById env mediaId st)) \<noteq> None
      \<longrightarrow> fst (fst (GetMediaUrlById env mediaId st)) = [])
   \<and> (snd (fst (DeleteMedia env mediaId st)) \<noteq> None
      \<longrightarrow> fst (fst (DeleteMedia env mediaId st)) = [])
   \<and> (snd (fst (UploadMedia env phoneNumberId file filename mimeType st)) \<noteq> None
      \<longrightarrow> fst (fst (UploadMedia env phoneNumberId file filename mimeType st)) = [])
   \<and> (snd (fst (UploadResumableMedia env sessionID fileData fileOffset st)) \<noteq> None
      \<longrightarrow> fst (fst (UploadResumableMedia env sessionID fileData fileOffset st)) = [])
   \<and> (snd (fst (CreateResumableUploadSession env appID fileLength fileType st)) \<noteq> None
      \<longrightarrow> fst (fst (CreateResumableUploadSession env appID fileLength fileType st)) = [])
   \<and> (snd (fst (UploadMediaForTemplate env appID fileData fileType st)) \<noteq> None
      \<longrightarrow> fst (fst (UploadMediaForTemplate env appID fileData fileType st)) = [])"
  by (simp add: GetMediaUrlById_error_empty DeleteMedia_error_empty UploadMedia_error_empty
      UploadResumableMedia_error_empty CreateResumableUploadSession_error_empty
      UploadMediaForTemplate_error_empty)

text \<open>On the failing transport every operation returns an error and the empty string, although
  the request client handed back the string \<^verbatim>\<open>partial\<close>.\<close>

theorem error_implies_empty_string_witness:
  "snd (fst (GetMediaUrlById failing_env ''M1'' [])) = Some (ErrorString ''timeout'')
   \<and> fst (fst (GetMediaUrlById failing_env ''M1'' [])) = []
   \<and> snd (fst (DeleteMedia failing_env ''M1'' [])) = Some (ErrorString ''timeout'')
   \<and> fst (fst (DeleteMedia failing_env ''M1'' [])) = []
   \<and> snd (fst (UploadMedia failing_env ''PN1'' (Reader ''png'' None) ''cat.png'' ''image/png'' []))
       = Some (WrapError ''error uploading media: '' (ErrorString ''timeout''))
   \<and> fst (fst (UploadMedia failing_env ''PN1'' (Reader ''png'' None) ''cat.png'' ''image/png'' [])) = []
   \<and> snd (fst (UploadResumableMedia failing_env ''sess_123'' ''png'' 0 []))
       = Some (ErrorString ''upload failed with status 500: boom'')
   \<and> fst (fst (UploadResumableMedia failing_env ''sess_123'' ''png'' 0 [])) = []
   \<and> snd (fst (CreateResumableUploadSession failing_env ''A1'' 3 ''image/png'' []))
       = Some (WrapError ''failed to create upload session: '' (ErrorString ''timeout''))
   \<and> fst (fst (CreateResumableUploadSession failing_env ''A1'' 3 ''image/png'' [])) = []
   \<and> snd (fst (UploadMediaForTemplate failing_env ''A1'' ''png'' ''image/png'' []))
       = Some (WrapError ''failed to create upload session: ''
            (WrapError ''failed to create upload session: '' (ErrorString ''timeout'')))
   \<and> fst (fst (UploadMediaForTemplate failing_env ''A1'' ''png'' ''image/png'' [])) = []"
  using error_implies_empty_string [of failing_env "''M1''" "[]" "''PN1''" "Reader ''png'' None"
      "''cat.png''" "''image/png''" "''sess_123''" "''png''" 0 "''A1''" 3 "''image/png''"]
  by (simp add: GetMediaUrlById_def DeleteMedia_def UploadMedia_def UploadResumableMedia_def
      CreateResumableUploadSession_def UploadMediaForTemplate_def failing_env_simps
      http_NewRequest_def NewApiRequest_def SetBody_def MethodGet_def MethodPost_def
      MethodDelete_def NewWriter_def WriteField_def CreateFormField_def CreatePart_def
      Part_Write_def Close_writer_def FormDataContentType_def FormatInt_def FormatUint.simps digit_def)

section \<open>Resolving and deleting media\<close>

text \<open>
  Claim C4. When the metadata response decodes, \<open>GetMediaUrlById\<close> returns the error
  \<^verbatim>\<open>no media url found in response: <raw response>\<close> if the decoded \<^verbatim>\<open>url\<close> is empty
  (absent or empty in the response), and the URL otherwise; whatever the response, a result
  without an error is never the empty string.
\<close>

theorem GetMediaUrlById_url_or_error:
  "(Execute env (NewApiRequest mediaId MethodGet) st = ((rawResponse, None), st')
      \<and> Unmarshal_MediaMetadata env rawResponse = Inr res
    \<longrightarrow> GetMediaUrlById env mediaId st =
          (if Url res = []
           then (([], Some (ErrorString (''no media url found in response: '' @ rawResponse))), st')
           else ((Url res, None), st')))
   \<and> (snd (fst (GetMediaUrlById env mediaId st)) = None
    \<longrightarrow> fst (fst (GetMediaUrlById env mediaId st)) \<noteq> [])"
  by (auto simp: GetMediaUrlById_def Let_def split: prod.splits option.splits sum.splits)

theorem GetMediaUrlById_url_or_error_witness:
  "GetMediaUrlById mock_env ''M2'' media_store =
     (([], Some (ErrorString ''no media url found in response: {\"id\":\"M2\"}'')), media_store)
   \<and> GetMediaUrlById mock_env ''M1'' media_store = ((''https://cdn/x'', None), media_store)"
  using GetMediaUrlById_url_or_error [of mock_env "''M2''" media_store "''{\"id\":\"M2\"}''" media_store
      "\<lparr>MessagingProduct = [], Url = [], MimeType = [], Sha256 = [], FileSize = 0, ID = ''M2''\<rparr>"]
    GetMediaUrlById_url_or_error [of mock_env "''M1''" media_store
      "''{\"url\":\"https://cdn/x\",\"id\":\"M1\"}''" media_store
      "\<lparr>MessagingProduct = [], Url = ''https://cdn/x'', MimeType = [], Sha256 = [], FileSize = 0, ID = ''M1''\<rparr>"]
  by (simp add: mock_env_def media_store_def NewApiRequest_def MethodGet_def)

text \<open>
  Claim C5. When the delete response decodes, \<open>DeleteMedia\<close> reports success if the decoded
  \<^verbatim>\<open>success\<close> flag is true, and otherwise returns an error whose message carries the raw
  response body; it returns no error only when the response decoded with the flag true.
\<close>

theorem DeleteMedia_success_flag:
  "(Execute env (NewApiRequest (''media/'' @ mediaId) MethodDelete) st = ((rawResponse, None), st')
      \<and> Unmarshal_DeleteSuccessResponse env rawResponse = Inr res
    \<longrightarrow> DeleteMedia env mediaId st =
          (if Success res
           then ((''media deleted successfully'', None), st')
           else (([], Some (ErrorString
                  (''media deletion failed or returned success=false: '' @ rawResponse))), st')))
   \<and> (snd (fst (DeleteMedia env mediaId st)) = None
    \<longrightarrow> (\<exists>rawResponse st' res.
          Execute env (NewApiRequest (''media/'' @ mediaId) MethodDelete) st = ((rawResponse, None), st')
          \<and> Unmarshal_DeleteSuccessResponse env rawResponse = Inr res \<and> Success res))"
  by (auto simp: DeleteMedia_def Let_def split: prod.splits option.splits sum.splits)

text \<open>Deleting an unknown id is answered with \<^verbatim>\<open>{"success":false}\<close> and surfaces as an
  error; deleting a stored id succeeds.\<close>

theorem DeleteMedia_success_flag_witness:
  "DeleteMedia mock_env ''M9'' media_store =
     (([], Some (ErrorString ''media deletion failed or returned success=false: {\"success\":false}'')),
      media_store)
   \<and> DeleteMedia mock_env ''M2'' media_store =
     ((''media deleted successfully'', None), [(''M1'', ''{\"url\":\"https://cdn/x\",\"id\":\"M1\"}'')])"
  using DeleteMedia_success_flag [of mock_env "''M9''" media_store "''{\"success\":false}''" media_store
      "\<lparr>Success = False\<rparr>"]
    DeleteMedia_success_flag [of mock_env "''M2''" media_store "''{\"success\":true}''"
      "[(''M1'', ''{\"url\":\"https://cdn/x\",\"id\":\"M1\"}'')]" "\<lparr>Success = True\<rparr>"]
  by (simp add: mock_env_def media_store_def NewApiRequest_def MethodDelete_def)

section \<open>The resumable upload\<close>



text \<open>
  Claim C7. When the URL is accepted, \<open>UploadResumableMedia\<close> issues exactly one HTTP request:
  a POST whose body is the payload itself, with the header \<^verbatim>\<open>Authorization\<close> set to
  \<^verbatim>\<open>OAuth <access token>\<close> and the header \<^verbatim>\<open>file_offset\<close> set to the decimal representation
  of the offset.
\<close>

theorem UploadResumableMedia_request:
  "url_Parse env (REQUEST_PROTOCOL env @ ''://'' @ BASE_URL env @ ''/'' @ API_VERSION env
       @ ''/'' @ sessionID) = None
   \<longrightarrow> calls (UploadResumableMedia (recording env) sessionID fileData fileOffset (st, []))
        = [HttpCall \<lparr>httpMethod = ''POST'',
              httpURL = REQUEST_PROTOCOL env @ ''://'' @ BASE_URL env @ ''/'' @ API_VERSION env
                         @ ''/'' @ sessionID,
              httpHeader = [(''Authorization'', ''OAuth '' @ ApiAccessToken env),
                            (''file_offset'', FormatInt (sint fileOffset))],
              httpBody = fileData\<rparr>]
     \<and> decimal_int (FormatInt (sint fileOffset)) = sint fileOffset"
  by (auto simp: calls_def UploadResumableMedia_def http_NewRequest_def MethodPost_def Let_def
      recording_simps decimal_int_FormatInt split: prod.splits option.splits sum.splits)

theorem UploadResumableMedia_request_witness:
  "calls (UploadResumableMedia (recording mock_env) ''sess_123'' ''png'' 7 ([], []))
     = [HttpCall \<lparr>httpMethod = ''POST'',
           httpURL = ''https://graph.facebook.com/v20.0/sess_123'',
           httpHeader = [(''Authorization'', ''OAuth TOKEN''), (''file_offset'', ''7'')],
           httpBody = ''png''\<rparr>]
   \<and> decimal_int ''7'' = 7"
  using UploadResumableMedia_request [of mock_env "''sess_123''" "''png''" 7 "[]"]
  by (simp add: mock_env_simps FormatInt_def FormatUint.simps digit_def)

text \<open>
  Claim C3. \<open>UploadResumableMedia\<close> returns an error exactly when the transport fails (the
  request cannot be built, the HTTP call fails or the body cannot be read), the status is
  outside 200..299, the body does not decode, or the decoded handle is empty. For a status
  outside 200..299 the error message carries the status and the response body; for a decoded
  2xx response the result is the handle when it is not empty.
\<close>

theorem UploadResumableMedia_error_iff:
  "(let req = \<lparr>httpMethod = ''POST'',
               httpURL = REQUEST_PROTOCOL env @ ''://'' @ BASE_URL env @ ''/'' @ API_VERSION env
                          @ ''/'' @ sessionID,
               httpHeader = [(''Authorization'', ''OAuth '' @ ApiAccessToken env),
                             (''file_offset'', FormatInt (sint fileOffset))],
               httpBody = fileData\<rparr>;
        out = UploadResumableMedia env sessionID fileData fileOffset st in
    ((snd (fst out) \<noteq> None) =
       ((\<exists>e. url_Parse env (httpURL req) = Some e)
        \<or> (\<exists>e. fst (Do env req st) = Inl e)
        \<or> (\<exists>resp. fst (Do env req st) = Inr resp \<and>
             ((\<exists>e. respReadErr resp = Some e)
              \<or> StatusCode resp < 200 \<or> 300 \<le> StatusCode resp
              \<or> (\<exists>e. Unmarshal_ResumableUploadResult env (respBody resp) = Inl e)
              \<or> (\<exists>r. Unmarshal_ResumableUploadResult env (respBody resp) = Inr r
                     \<and> Handle r = [])))))
    \<and> (url_Parse env (httpURL req) = None \<and> Do env req st = (Inr resp, st')
          \<and> respReadErr resp = None \<and> (StatusCode resp < 200 \<or> 300 \<le> StatusCode resp)
        \<longrightarrow> out = (([], Some (ErrorString (''upload failed with status ''
                      @ FormatInt (StatusCode resp) @ '': '' @ respBody resp))), st'))
    \<and> (url_Parse env (httpURL req) = None \<and> Do env req st = (Inr resp, st')
          \<and> respReadErr resp = None \<and> 200 \<le> StatusCode resp \<and> StatusCode resp < 300
          \<and> Unmarshal_ResumableUploadResult env (respBody resp) = Inr r
        \<longrightarrow> out = (if Handle r = []
                   then (([], Some (ErrorString (''no media handle in response: '' @ respBody resp))), st')
                   else ((Handle r, None), st'))))"
  unfolding Let_def
  by (auto simp: UploadResumableMedia_def http_NewRequest_def MethodPost_def Let_def
      split: prod.splits option.splits sum.splits)

text \<open>A response with status 500, a response with a handle, and a 2xx response without one.\<close>

theorem UploadResumableMedia_error_iff_witness:
  "UploadResumableMedia failing_env ''sess_123'' ''png'' 0 []
     = (([], Some (ErrorString ''upload failed with status 500: boom'')), [])
   \<and> UploadResumableMedia mock_env ''sess_123'' ''png'' 0 [] = ((''4::abc'', None), [])
   \<and> UploadResumableMedia
         (mock_env\<lparr>Do := (\<lambda>req st. (Inr \<lparr>StatusCode = 200, respBody = ''{}'', respReadErr = None\<rparr>, st))\<rparr>)
         ''sess_123'' ''png'' 0 []
     = (([], Some (ErrorString ''no media handle in response: {}'')), [])"
  using UploadResumableMedia_error_iff [where env = failing_env and sessionID = "''sess_123''"
      and fileData = "''png''" and fileOffset = 0 and st = "[]" and st' = "[]"
      and resp = "\<lparr>StatusCode = 500, respBody = ''boom'', respReadErr = None\<rparr>"]
    UploadResumableMedia_error_iff [where env = mock_env and sessionID = "''sess_123''"
      and fileData = "''png''" and fileOffset = 0 and st = "[]" and st' = "[]"
      and resp = "\<lparr>StatusCode = 200, respBody = ''{\"h\":\"4::abc\"}'', respReadErr = None\<rparr>"
      and r = "\<lparr>Handle = ''4::abc''\<rparr>"]
    UploadResumableMedia_error_iff [where env = "mock_env\<lparr>Do := (\<lambda>req st.
           (Inr \<lparr>StatusCode = 200, respBody = ''{}'', respReadErr = None\<rparr>, st))\<rparr>"
      and sessionID = "''sess_123''"
      and fileData = "''png''" and fileOffset = 0 and st = "[]" and st' = "[]"
      and resp = "\<lparr>StatusCode = 200, respBody = ''{}'', respReadErr = None\<rparr>"
      and r = "\<lparr>Handle = []\<rparr>"]
  by (simp add: Let_def failing_env_simps mock_env_def FormatInt_def FormatUint.simps digit_def)






section \<open>The simple upload\<close>

text \<open>
  Claim C6, as the code has it. For a file that is read without error, \<open>UploadMedia\<close> issues
  exactly one request: a multipart POST to \<^verbatim>\<open><phoneNumberId>/media\<close> whose form has two
  parts, the field \<^verbatim>\<open>messaging_product\<close> with value \<^verbatim>\<open>whatsapp\<close> and the file part with
  \<^verbatim>\<open>Content-Disposition\<close> (name \<^verbatim>\<open>file\<close>, filename the base name of the supplied filename)
  and \<^verbatim>\<open>Content-Type\<close> the supplied MIME type, holding the bytes of the file.
\<close>

theorem UploadMedia_form:
  "calls (UploadMedia (recording env) phoneNumberId (Reader fileData None) filename mimeType (st, []))
     = [MultipartCall ''POST'' (phoneNumberId @ ''/media'')
          \<lparr>bufBoundary = RandomBoundary env,
           bufParts =
             [\<lparr>part_header = [(''Content-Disposition'', ''form-data; name=\"messaging_product\"'')],
               part_data = ''whatsapp''\<rparr>,
              \<lparr>part_header = [(''Content-Disposition'',
                                ''form-data; name=\"file\"; filename=\"'' @ Base filename @ ''\"''),
                               (''Content-Type'', mimeType)],
               part_data = fileData\<rparr>],
           bufClosed = True\<rparr>
          (''multipart/form-data; boundary='' @ RandomBoundary env)]"
  by (simp add: calls_def UploadMedia_def multipart_defs MethodPost_def Let_def recording_simps
      split: prod.splits option.splits sum.splits)

theorem UploadMedia_form_witness:
  "calls (UploadMedia (recording mock_env) ''PN1'' (Reader ''png'' None) ''/tmp/cat.png'' ''image/png''
       ([], []))
     = [MultipartCall ''POST'' ''PN1/media''
          \<lparr>bufBoundary = ''b0undary'',
           bufParts =
             [\<lparr>part_header = [(''Content-Disposition'', ''form-data; name=\"messaging_product\"'')],
               part_data = ''whatsapp''\<rparr>,
              \<lparr>part_header = [(''Content-Disposition'',
                                ''form-data; name=\"file\"; filename=\"cat.png\"''),
                               (''Content-Type'', ''image/png'')],
               part_data = ''png''\<rparr>],
           bufClosed = True\<rparr>
          ''multipart/form-data; boundary=b0undary'']"
  using UploadMedia_form [of mock_env "''PN1''" "''png''" "''/tmp/cat.png''" "''image/png''" "[]"]
  by (simp add: mock_env_simps Base_def IsPathSeparator_def)

text \<open>The form of \<open>UploadMedia\<close> does not have three parts.\<close>

theorem UploadMedia_three_parts_counterexample:
  "\<not> (\<exists>m p b ct.
        calls (UploadMedia (recording mock_env) ''PN1'' (Reader ''png'' None) ''/tmp/cat.png''
                 ''image/png'' ([], []))
          = [MultipartCall m p b ct]
        \<and> length (bufParts b) = 3)"
  by (simp add: calls_def UploadMedia_def multipart_defs MethodPost_def Let_def recording_simps
      mock_env_simps split: prod.splits option.splits sum.splits)

section \<open>The flow asset\<close>

text \<open>
  The \<open>UploadFlowJSON\<close> with the multipart form issues exactly one request: a multipart POST to
  \<^verbatim>\<open><flowID>/assets\<close> with the three parts \<^verbatim>\<open>name\<close> = \<^verbatim>\<open>flow.json\<close>, \<^verbatim>\<open>asset_type\<close> =
  \<^verbatim>\<open>FLOW_JSON\<close> and the file part holding the document.
\<close>

lemma UploadFlowJSON_form:
  "calls (UploadFlowJSON (recording env) flowID flowJSON (st, []))
     = [MultipartCall ''POST'' (flowID @ ''/assets'')
          \<lparr>bufBoundary = RandomBoundary env,
           bufParts =
             [\<lparr>part_header = [(''Content-Disposition'', ''form-data; name=\"name\"'')],
               part_data = ''flow.json''\<rparr>,
              \<lparr>part_header = [(''Content-Disposition'', ''form-data; name=\"asset_type\"'')],
               part_data = ''FLOW_JSON''\<rparr>,
              \<lparr>part_header = [(''Content-Disposition'',
                                ''form-data; name=\"file\"; filename=\"flow.json\"''),
                               (''Content-Type'', ''application/octet-stream'')],
               part_data = flowJSON\<rparr>],
           bufClosed = True\<rparr>
          (''multipart/form-data; boundary='' @ RandomBoundary env)]"
  by (simp add: calls_def UploadFlowJSON_def multipart_defs MethodPost_def Let_def recording_simps
      split: prod.splits option.splits sum.splits)

text \<open>
  The \<open>UploadFlowJSON\<close> of \<^verbatim>\<open>manager/flow_manager.go\<close> issues one request through
  \<open>Execute\<close>, whose body is the JSON encoding of an object with the fields \<^verbatim>\<open>name\<close>,
  \<^verbatim>\<open>asset_type\<close> and \<^verbatim>\<open>file\<close>; it sends no multipart form.
\<close>

lemma UploadFlowJSON_flow_manager_request:
  "Marshal env (JObject [(''name'', JString ''flow.json''), (''asset_type'', JString ''FLOW_JSON''),
       (''file'', JString flowJSON)]) = (jsonBody, None)
   \<Longrightarrow> calls (UploadFlowJSON_flow_manager (recording env) flowID flowJSON (st, []))
       = [ApiCall \<lparr>reqPath = flowID @ ''/assets'', reqMethod = ''POST'', reqBody = jsonBody\<rparr>]"
  by (simp add: calls_def UploadFlowJSON_flow_manager_def UploadFlowJSONRequest_json_def
      NewApiRequest_def SetBody_def MethodPost_def Let_def recording_simps
      split: prod.splits option.splits sum.splits)

text \<open>
  Claim C2 says that \<open>UploadFlowJSON\<close> posts a three-field multipart form and not a JSON
  object. For flow \<^verbatim>\<open>F1\<close> and document \<^verbatim>\<open>{}\<close>, the \<open>UploadFlowJSON\<close> of
  \<^verbatim>\<open>manager/flow_manager.go\<close> posts a JSON object.
\<close>

theorem UploadFlowJSON_flow_manager_sends_json:
  "calls (UploadFlowJSON_flow_manager (recording mock_env) ''F1'' ''{}'' ([], []))
     = [ApiCall \<lparr>reqPath = ''F1/assets'', reqMethod = ''POST'',
          reqBody = ''{\"name\":\"flow.json\",\"asset_type\":\"FLOW_JSON\",\"file\":\"{}\"}''\<rparr>]"
  by (simp add: UploadFlowJSON_flow_manager_request mock_env_simps quote_def)

lemma UploadFlowJSON_file_content:
  "file_content
     \<lparr>bufBoundary = b,
      bufParts =
        [\<lparr>part_header = [(''Content-Disposition'', ''form-data; name=\"name\"'')],
          part_data = ''flow.json''\<rparr>,
         \<lparr>part_header = [(''Content-Disposition'', ''form-data; name=\"asset_type\"'')],
          part_data = ''FLOW_JSON''\<rparr>,
         \<lparr>part_header = [(''Content-Disposition'',
                           ''form-data; name=\"file\"; filename=\"flow.json\"''),
                          (''Content-Type'', ''application/octet-stream'')],
          part_data = flowJSON\<rparr>],
      bufClosed = True\<rparr> = flowJSON"
  by (simp add: file_content_def is_file_part_def Header_Get_def)

lemma UploadFlowJSON_echoed:
  assumes echo: "faithful_echo env"
    and up: "UploadFlowJSON env flowID flowJSON st = ((Some result, None), st')"
  shows "fst (Execute env (NewApiRequest (flowID @ ''/assets'') MethodGet) st') = (flowJSON, None)"
proof -
  let ?form = "\<lparr>bufBoundary = RandomBoundary env,
      bufParts =
        [\<lparr>part_header = [(''Content-Disposition'', ''form-data; name=\"name\"'')],
          part_data = ''flow.json''\<rparr>,
         \<lparr>part_header = [(''Content-Disposition'', ''form-data; name=\"asset_type\"'')],
          part_data = ''FLOW_JSON''\<rparr>,
         \<lparr>part_header = [(''Content-Disposition'',
                           ''form-data; name=\"file\"; filename=\"flow.json\"''),
                          (''Content-Type'', ''application/octet-stream'')],
          part_data = flowJSON\<rparr>],
      bufClosed = True\<rparr>"
  from up obtain resp where post:
    "RequestMultipart env MethodPost (flowID @ ''/assets'') ?form
       (''multipart/form-data; boundary='' @ RandomBoundary env) st = ((resp, None), st')"
    by (auto simp: UploadFlowJSON_def multipart_defs Let_def
        split: prod.splits option.splits sum.splits)
  have "fst (Execute env (NewApiRequest (flowID @ ''/assets'') MethodGet) st')
          = (file_content ?form, None)"
    using echo [unfolded faithful_echo_def, rule_format, OF post] .
  then show ?thesis
    by (simp only: UploadFlowJSON_file_content)
qed

text \<open>
  Claim C9. On a faithful echo, \<open>GetFlowJSON\<close> after an \<open>UploadFlowJSON\<close> that returned no
  error returns the uploaded document, byte for byte; and \<open>GetFlowJSON\<close> returns the response
  text of its GET as it is.
\<close>

theorem GetFlowJSON_after_UploadFlowJSON:
  "(faithful_echo env \<and> UploadFlowJSON env flowID flowJSON st = ((Some result, None), st')
      \<longrightarrow> fst (GetFlowJSON env flowID st') = (flowJSON, None))
   \<and> (Execute env (NewApiRequest (flowID @ ''/assets'') MethodGet) st = ((response, None), st'')
      \<longrightarrow> GetFlowJSON env flowID st = ((response, None), st''))"
proof (intro conjI impI)
  assume a: "faithful_echo env \<and> UploadFlowJSON env flowID flowJSON st = ((Some result, None), st')"
  then have "fst (Execute env (NewApiRequest (flowID @ ''/assets'') MethodGet) st') = (flowJSON, None)"
    using UploadFlowJSON_echoed [of env flowID flowJSON st result st'] by simp
  then show "fst (GetFlowJSON env flowID st') = (flowJSON, None)"
    by (auto simp: GetFlowJSON_def Let_def split: prod.splits option.splits)
next
  assume "Execute env (NewApiRequest (flowID @ ''/assets'') MethodGet) st = ((response, None), st'')"
  then show "GetFlowJSON env flowID st = ((response, None), st'')"
    by (simp add: GetFlowJSON_def)
qed

theorem GetFlowJSON_after_UploadFlowJSON_witness:
  "UploadFlowJSON mock_env ''F1'' ''{\"version\":\"7.0\"}'' []
     = ((Some \<lparr>upload_Success = True, upload_ValidationErrors = []\<rparr>, None),
        [(''F1/assets'', ''{\"version\":\"7.0\"}'')])
   \<and> GetFlowJSON mock_env ''F1'' [(''F1/assets'', ''{\"version\":\"7.0\"}'')]
     = ((''{\"version\":\"7.0\"}'', None), [(''F1/assets'', ''{\"version\":\"7.0\"}'')])"
  using GetFlowJSON_after_UploadFlowJSON [of mock_env "''F1''" "''{\"version\":\"7.0\"}''" "[]"
      "\<lparr>upload_Success = True, upload_ValidationErrors = []\<rparr>"
      "[(''F1/assets'', ''{\"version\":\"7.0\"}'')]"]
    GetFlowJSON_after_UploadFlowJSON [of mock_env "''F1''" "''{\"version\":\"7.0\"}''"
      "[(''F1/assets'', ''{\"version\":\"7.0\"}'')]"
      "\<lparr>upload_Success = True, upload_ValidationErrors = []\<rparr>"
      "[(''F1/assets'', ''{\"version\":\"7.0\"}'')]"
      "''{\"version\":\"7.0\"}''" "[(''F1/assets'', ''{\"version\":\"7.0\"}'')]"]
    faithful_echo_mock_env
  by (simp add: UploadFlowJSON_def multipart_defs mock_env_def Let_def
      NewApiRequest_def MethodGet_def MethodPost_def file_content_def is_file_part_def Header_Get_def)

end
